theory Spec2Isabelle
  imports Main "HOL-Library.AList"
begin

section \<open>The offline image store\<close>

text \<open>
  A shallow embedding of the class \<open>OfflineImageStore\<close>: the singleton that keeps the
  dictionary \<open>entries\<close> (cache key to entry), the configuration \<open>store\<close> and the
  dictionary \<open>handlers\<close> (URI to callbacks), downloads images into the cache directory
  and mirrors \<open>entries\<close> in \<open>AsyncStorage\<close>.

  The class is asynchronous: a method runs to its first suspension, and the callbacks
  of its promises run later, one at a time, on the same thread. Every such run-to-completion
  segment is one function here. A segment takes the state and returns the new state; what an
  operation of the platform answers (a fetch that resolves or rejects, an \<open>unlink\<close>, a
  \<open>setItem\<close>) is an argument of the segment that handles the answer. Every call that leaves
  the class (file system, network, \<open>AsyncStorage\<close>, console, subscribed handlers, the
  completion callback) is appended to \<open>trace\<close>, in program order.

  The source's private methods start with an underscore (\<open>_getImage\<close>); the definitions
  carry the same names without it.
\<close>

subsection \<open>Strings\<close>

text \<open>
  \<open>String.prototype.indexOf\<close> and \<open>lastIndexOf\<close> for a one-character pattern: the
  position of the first, respectively last, occurrence, and \<open>-1\<close> when there is none.
\<close>

fun indexOf :: "string \<Rightarrow> char \<Rightarrow> int" where
  "indexOf [] c = -1"
| "indexOf (x # xs) c =
     (if x = c then 0
      else (let i = indexOf xs c in if i = -1 then -1 else i + 1))"

fun lastIndexOf :: "string \<Rightarrow> char \<Rightarrow> int" where
  "lastIndexOf [] c = -1"
| "lastIndexOf (x # xs) c =
     (let i = lastIndexOf xs c in
      if i \<noteq> -1 then i + 1 else if x = c then 0 else -1)"

text \<open>
  \<open>s.substring(i)\<close>: a negative start counts as \<open>0\<close> and a start beyond the end gives
  the empty string.
\<close>

definition substring :: "string \<Rightarrow> int \<Rightarrow> string" where
  "substring s i = drop (nat i) s"

text \<open>\<open>s.split(c)[0]\<close>: the text before the first \<open>c\<close>, the whole of \<open>s\<close> when there is none.\<close>

definition split_first :: "string \<Rightarrow> char \<Rightarrow> string" where
  "split_first s c = takeWhile (\<lambda>x. x \<noteq> c) s"

subsection \<open>Data\<close>

text \<open>
  The \<open>props\<close> object of a request. \<open>id\<close> and the optional fields of \<open>source\<close> may be
  \<open>undefined\<close> (\<open>None\<close>); \<open>ignoreQueryString\<close> and \<open>reloadImage\<close> are read for their truth
  value only. The field \<open>id\<close> is \<open>id_prop\<close> here and \<open>method\<close> is \<open>http_method\<close>.
\<close>

record source =
  uri :: string
  http_method :: "string option"
  headers :: "(string \<times> string) list option"

record props =
  id_prop :: "string option"
  ignoreQueryString :: bool
  reloadImage :: bool
  source :: source

text \<open>
  An entry of \<open>this.entries\<close>. \<open>createdOn\<close> is the text \<open>new Date().toString()\<close> gave, and
  \<open>None\<close> in an entry that has no such property.
\<close>

record entry =
  createdOn :: "string option"
  basePath :: string
  localUriPath :: string

text \<open>\<open>this.store\<close>.\<close>

record store_config =
  name :: string
  storeImageTimeout :: int
  debugMode :: bool

text \<open>
  A subscribed handler is a callback of the client; the model knows it by a number and
  records each call of it. Calls that leave the class, in the order they are made:
\<close>

type_synonym handler = nat

datatype event =
    GetItem string
  | SetItem string string
  | Unlink string
  | Fetch string string "(string \<times> string) list option" string
  | Call handler string string
  | Completion
  | Log string

text \<open>
  \<open>GetItem k\<close> and \<open>SetItem k v\<close> are the calls of \<open>AsyncStorage\<close>; \<open>Unlink p\<close> is
  \<open>RNFetchBlob.fs.unlink(p)\<close>; \<open>Fetch m u h p\<close> is
  \<open>RNFetchBlob.config({path: p}).fetch(m, u, h)\<close>, the download of \<open>u\<close> into the file
  \<open>p\<close>; \<open>Call h u p\<close> is the handler \<open>h\<close> called with \<open>(u, p)\<close>; \<open>Completion\<close> is the
  call of \<open>onRestoreCompletion\<close>; \<open>Log m\<close> is \<open>console.log(m, ...)\<close>.
\<close>

record state =
  entries :: "(string \<times> entry) list"
  store :: store_config
  handlers :: "string \<Rightarrow> handler list option"
  trace :: "event list"

text \<open>
  \<open>entries\<close> holds the own properties of the object \<open>this.entries\<close>, in the order they were
  created: an assignment \<open>this.entries[k] = e\<close> is \<open>AList.update k e\<close> and
  \<open>delete this.entries[k]\<close> is \<open>AList.delete k\<close>.

  \<open>this.entries\<close> is a plain object (\<open>this.entries = {}\<close> in the constructor), so a read
  \<open>this.entries[k]\<close> of a key that is not an own property goes on to \<open>Object.prototype\<close>:
  for the names below it finds a function, a value that is truthy, has no property
  \<open>basePath\<close> and spreads to nothing. The cache key may be any string, since \<open>id\<close> is one.
\<close>

definition Object_prototype :: "string list" where
  "Object_prototype =
     [''constructor'', ''hasOwnProperty'', ''isPrototypeOf'', ''propertyIsEnumerable'',
      ''toLocaleString'', ''toString'', ''valueOf'', ''__defineGetter__'',
      ''__defineSetter__'', ''__lookupGetter__'', ''__lookupSetter__'']"

datatype 'a lookup = Own 'a | Inherited | Absent

definition get_prop :: "(string \<times> 'a) list \<Rightarrow> string \<Rightarrow> 'a lookup" where
  "get_prop al k =
     (case map_of al k of
        Some v \<Rightarrow> Own v
      | None \<Rightarrow> if k \<in> set Object_prototype then Inherited else Absent)"

text \<open>
  The accessor \<open>__proto__\<close> is not in the list: a key of that name is taken not to occur
  (an assignment under it would replace the prototype of the object instead of creating a
  property). \<open>handlers\<close> is keyed by \<open>source.uri\<close>, the address a request fetches, which is
  taken not to be one of the names above.

  \<open>Object.keys\<close> lists the own keys that are array indices first (the decimal numerals
  without a leading zero, up to \<open>2^32 - 2\<close>), in ascending numeric order, and then the other
  keys in the order they were created.
\<close>

definition digit_value :: "char \<Rightarrow> nat option" where
  "digit_value c = map_of (zip ''0123456789'' [0, 1, 2, 3, 4, 5, 6, 7, 8, 9]) c"

definition index_value :: "string \<Rightarrow> nat" where
  "index_value k = foldl (\<lambda>n c. 10 * n + (case digit_value c of Some d \<Rightarrow> d | None \<Rightarrow> 0)) 0 k"

definition is_array_index :: "string \<Rightarrow> bool" where
  "is_array_index k =
     (case k of
        [] \<Rightarrow> False
      | c # cs \<Rightarrow>
          list_all (\<lambda>x. digit_value x \<noteq> None) k \<and> (c \<noteq> CHR ''0'' \<or> cs = []) \<and>
          index_value k < 4294967295)"

definition Object_keys :: "(string \<times> 'a) list \<Rightarrow> string list" where
  "Object_keys al =
     (let ks = map fst al
      in sort_key index_value (filter is_array_index ks) @
         filter (\<lambda>k. \<not> is_array_index k) ks)"

text \<open>
  What the class takes from its platform and its libraries, and does not define:
  the cache directory of \<open>rn-fetch-blob\<close>; \<open>SHA1\<close> of \<open>crypto-js\<close> (read as the text the
  digest turns into when it is used as a property name and in a template string);
  \<open>JSON.stringify\<close> on \<open>entries\<close>; the built-in \<open>Date\<close>; and whether a handler throws on
  a call. Of \<open>Date\<close>, with times in milliseconds: \<open>Date_toString now\<close> is
  \<open>new Date().toString()\<close> at the time \<open>now\<close>; \<open>Date_new d\<close> is the time value of
  \<open>new Date(d)\<close>, where \<open>d\<close> is a text or \<open>undefined\<close>, and \<open>None\<close> for an invalid date;
  \<open>Date_addSeconds t n\<close> is the time value of a date of time \<open>t\<close> after
  \<open>setSeconds(getSeconds() + n)\<close>, which works in local time, and \<open>None\<close> when the result
  is out of range.
\<close>

record env =
  CacheDir :: string
  SHA1 :: "string \<Rightarrow> string"
  JSON_stringify :: "(string \<times> entry) list \<Rightarrow> string"
  Date_toString :: "int \<Rightarrow> string"
  Date_new :: "string option \<Rightarrow> int option"
  Date_addSeconds :: "int \<Rightarrow> int \<Rightarrow> int option"
  handler_throws :: "handler \<Rightarrow> string \<Rightarrow> string \<Rightarrow> bool"

subsection \<open>Key derivation\<close>

text \<open>
  \<^verbatim>\<open>
  _getEntryProps = (props) => {
    const { id, ignoreQueryString, source } = props;
    const { uri } = source;
    const path = uri.substring(uri.lastIndexOf('/')).split('?')[0];
    const extension = path.indexOf('.') === -1 ? '.jpg' : path.substring(path.lastIndexOf('.'));
    const hash = id ? id : SHA1(ignoreQueryString ? uri.split('?')[0] : uri);
    return { hash, extension };
  };
  \<close>
  \<open>id ? id : ...\<close> takes \<open>id\<close> when it is truthy: a string that is not empty.
\<close>

definition hashed_uri :: "props \<Rightarrow> string" where
  "hashed_uri p =
     (if ignoreQueryString p then split_first (uri (source p)) CHR ''?''
      else uri (source p))"

definition getEntryProps :: "env \<Rightarrow> props \<Rightarrow> string \<times> string" where
  "getEntryProps ev p =
     (let u = uri (source p);
          path = split_first (substring u (lastIndexOf u CHR ''/'')) CHR ''?'';
          extension =
            (if indexOf path CHR ''.'' = -1 then ''.jpg''
             else substring path (lastIndexOf path CHR ''.''));
          hash =
            (case id_prop p of
               None \<Rightarrow> SHA1 ev (hashed_uri p)
             | Some i \<Rightarrow> if i \<noteq> [] then i else SHA1 ev (hashed_uri p))
      in (hash, extension))"

subsection \<open>Paths, the storage key and the console\<close>

text \<open>
  \<^verbatim>\<open>
  getBaseDir = () => {
    return `${RNFetchBlob.fs.dirs.CacheDir}/${this.store.name}`;
  };
  \<close>
\<close>

definition getBaseDir :: "env \<Rightarrow> state \<Rightarrow> string" where
  "getBaseDir ev s = CacheDir ev @ ''/'' @ name (store s)"

text \<open>
  The template \<^verbatim>\<open>`${entry.basePath}/${entry.localUriPath}`\<close>, which the source writes out
  in \<open>getImageOfflinePath\<close>, \<open>_notify\<close> and \<open>_removeExpiredImages\<close>.
\<close>

definition entry_path :: "entry \<Rightarrow> string" where
  "entry_path e = basePath e @ ''/'' @ localUriPath e"

text \<open>
  The template \<^verbatim>\<open>`@${this.store.name}:uris`\<close>, which the source writes out in \<open>restore\<close>,
  \<open>_updateAsyncStorage\<close> and \<open>_updateOfflineStore\<close>, the three places that call
  \<open>AsyncStorage\<close> (\<open>clearStore\<close> reaches it through \<open>_updateAsyncStorage\<close>).
\<close>

definition uris_key :: "state \<Rightarrow> string" where
  "uris_key s = ''@'' @ name (store s) @ '':uris''"

definition emit :: "event list \<Rightarrow> state \<Rightarrow> state" where
  "emit evs s = s\<lparr>trace := trace s @ evs\<rparr>"

text \<open>\<^verbatim>\<open>if (this.store.debugMode) { console.log(m, ...); }\<close>\<close>

definition debug_log :: "string \<Rightarrow> state \<Rightarrow> state" where
  "debug_log m s = (if debugMode (store s) then emit [Log m] s else s)"

text \<open>
  Reading a trace: the calls a segment added to it, and those of them that are not console
  output.
\<close>

definition since :: "state \<Rightarrow> state \<Rightarrow> event list" where
  "since s s' = drop (length (trace s)) (trace s')"

fun is_log :: "event \<Rightarrow> bool" where
  "is_log (Log m) = True"
| "is_log e = False"

fun is_call :: "event \<Rightarrow> bool" where
  "is_call (Call h u p) = True"
| "is_call e = False"


fun is_storage :: "event \<Rightarrow> bool" where
  "is_storage (GetItem k) = True"
| "is_storage (SetItem k v) = True"
| "is_storage e = False"

fun storage_key :: "event \<Rightarrow> string list" where
  "storage_key (GetItem k) = [k]"
| "storage_key (SetItem k v) = [k]"
| "storage_key e = []"

definition effects :: "event list \<Rightarrow> event list" where
  "effects t = filter (\<lambda>x. \<not> is_log x) t"

subsection \<open>Reading the cache\<close>

text \<open>
  \<^verbatim>\<open>
  _getEntry = (props) => {
    const { hash } = this._getEntryProps(props);
    return this.entries[hash];
  }
  \<close>
\<close>

definition getEntry :: "env \<Rightarrow> state \<Rightarrow> props \<Rightarrow> entry lookup" where
  "getEntry ev s p = get_prop (entries s) (fst (getEntryProps ev p))"

text \<open>
  \<^verbatim>\<open>
  getImageOfflinePath = (props) => {
    const entry = this._getEntry(props);
    if(entry) {
      // Only exist if base directory matches
      if (entry.basePath === this.getBaseDir()) {
        if (this.store.debugMode) {
          console.log('Image exist offline', entry.localUriPath);
        }
        return `${entry.basePath}/${entry.localUriPath}`;
      }
    }
    if (this.store.debugMode) {
      console.log('Image not exist offline', props.source.uri);
    }
    return undefined;
  };
  \<close>
  The result is the returned value (\<open>None\<close> for \<open>undefined\<close>) and the state, which differs
  from the given one in the console output only. An inherited value passes \<open>if(entry)\<close>
  and fails the comparison, its \<open>basePath\<close> being \<open>undefined\<close>.
\<close>

definition getImageOfflinePath :: "env \<Rightarrow> state \<Rightarrow> props \<Rightarrow> string option \<times> state" where
  "getImageOfflinePath ev s p =
     (case getEntry ev s p of
        Own e \<Rightarrow>
          if basePath e = getBaseDir ev s
          then (Some (entry_path e), debug_log ''Image exist offline'' s)
          else (None, debug_log ''Image not exist offline'' s)
      | Inherited \<Rightarrow> (None, debug_log ''Image not exist offline'' s)
      | Absent \<Rightarrow> (None, debug_log ''Image not exist offline'' s))"

text \<open>
  \<^verbatim>\<open>
  isImageExistOffline = (uri) => {
    return this.entries[uri] !== undefined;
  };
  \<close>
\<close>

definition isImageExistOffline :: "state \<Rightarrow> string \<Rightarrow> bool" where
  "isImageExistOffline s u = (get_prop (entries s) u \<noteq> Absent)"

subsection \<open>Notification\<close>

text \<open>
  \<^verbatim>\<open>
  _notify = (uri, entry) => {
    const handlers = this.handlers[uri];
    if (handlers && handlers.length > 0) {
      handlers.forEach(handler => {
        if (this.store.debugMode) {
          console.log('Notify handler called', uri);
        }
        handler(uri, `${entry.basePath}/${entry.localUriPath}`);
      });
    }
  };
  \<close>
  The body of \<open>forEach\<close> has no \<open>try\<close>: when a handler throws, the exception leaves
  \<open>forEach\<close> and \<open>_notify\<close>. The second component of the result says whether that
  happened. Handlers are taken not to call back into the store while they run.
\<close>

fun call_handlers ::
  "env \<Rightarrow> bool \<Rightarrow> string \<Rightarrow> string \<Rightarrow> handler list \<Rightarrow> event list \<times> bool" where
  "call_handlers ev dbg u p [] = ([], False)"
| "call_handlers ev dbg u p (h # hs) =
     (let made = (if dbg then [Log ''Notify handler called''] else []) @ [Call h u p] in
      if handler_throws ev h u p then (made, True)
      else (let (evs, thrown) = call_handlers ev dbg u p hs in (made @ evs, thrown)))"

definition notify :: "env \<Rightarrow> state \<Rightarrow> string \<Rightarrow> entry \<Rightarrow> state \<times> bool" where
  "notify ev s u e =
     (case handlers s u of
        None \<Rightarrow> (s, False)
      | Some hs \<Rightarrow>
          if hs \<noteq> [] then
            (let (evs, thrown) = call_handlers ev (debugMode (store s)) u (entry_path e) hs
             in (emit evs s, thrown))
          else (s, False))"

subsection \<open>Downloading\<close>

text \<open>
  \<^verbatim>\<open>
  _addEntry = (hash, localUriPath) => {
    // Save Downloaded date when image downloads for first time
    const entry = this.entries[hash];
    if(entry)
      return this.entries[hash] = {
        ...entry,
        basePath: this.getBaseDir(),
        localUriPath,
      };
    return this.entries[hash] = {
      createdOn: new Date().toString(),
      basePath: this.getBaseDir(),
      localUriPath,
    };
  };
  \<close>
  \<open>now\<close> is the time \<open>new Date()\<close> reads, in milliseconds. An inherited value passes
  \<open>if(entry)\<close>; its spread contributes no property, so the object assigned has
  \<open>basePath\<close> and \<open>localUriPath\<close> and no \<open>createdOn\<close>. The assignment creates an own
  property in every case.
\<close>

definition addEntry :: "env \<Rightarrow> state \<Rightarrow> string \<Rightarrow> string \<Rightarrow> int \<Rightarrow> entry \<times> state" where
  "addEntry ev s hash file now =
     (let e =
        (case get_prop (entries s) hash of
           Own old \<Rightarrow> old\<lparr>basePath := getBaseDir ev s, localUriPath := file\<rparr>
         | Inherited \<Rightarrow>
             \<lparr>createdOn = None, basePath = getBaseDir ev s, localUriPath = file\<rparr>
         | Absent \<Rightarrow>
             \<lparr>createdOn = Some (Date_toString ev now), basePath = getBaseDir ev s,
              localUriPath = file\<rparr>)
      in (e, s\<lparr>entries := AList.update hash e (entries s)\<rparr>))"

text \<open>
  \<^verbatim>\<open>
  _updateOfflineStore = async (uri, entry) => {
    try {
      await AsyncStorage.setItem(`@${this.store.name}:uris`, JSON.stringify(this.entries));
      // Notify subscribed handler
      this._notify(uri, entry);
    } catch (error) {
      if (this.store.debugMode) {
        // Error saving data
        console.log('Offline image entry update failed', error);
      }
    }
  };
  \<close>
  Two segments: up to the \<open>await\<close>, and from the answer of \<open>setItem\<close> on. A rejected
  \<open>setItem\<close> and a handler that throws both end in the \<open>catch\<close>.
\<close>

datatype outcome = Resolved | Rejected

definition updateOfflineStore :: "env \<Rightarrow> state \<Rightarrow> state" where
  "updateOfflineStore ev s = emit [SetItem (uris_key s) (JSON_stringify ev (entries s))] s"

definition updateOfflineStore_resume ::
  "env \<Rightarrow> state \<Rightarrow> string \<Rightarrow> entry \<Rightarrow> outcome \<Rightarrow> state" where
  "updateOfflineStore_resume ev s u e stored =
     (case stored of
        Resolved \<Rightarrow>
          (let (s1, thrown) = notify ev s u e in
           if thrown then debug_log ''Offline image entry update failed'' s1 else s1)
      | Rejected \<Rightarrow> debug_log ''Offline image entry update failed'' s)"

text \<open>
  \<^verbatim>\<open>
  _downloadImage = (props) => {
    const { source } = props;
    const { headers, method='GET', uri } = source;
    const { hash, extension } = this._getEntryProps(props);
    const filename = `${hash}${extension}`;
    return RNFetchBlob
      .config({
        path: `${this.getBaseDir()}/${filename}`
      })
      .fetch(method, uri, headers)
      .then(() => {
        // Add entry to entry list!!
        const entry = this._addEntry(hash, filename);
        // Notify subscribed handler AND Persist entries to AsyncStorage for offline
        this._updateOfflineStore(uri, entry).done();
      })
      .catch(() => {
        if (this.store.debugMode) {
          console.log('Failed to download image', uri);
        }
      });
  };
  \<close>
  Three segments: \<open>downloadImage\<close> starts the fetch; \<open>downloadImage_then\<close> is the callback of
  a fetch that resolved, up to the \<open>await\<close> inside \<open>_updateOfflineStore\<close>, and gives the
  entry that callback holds; \<open>downloadImage_catch\<close> is the callback of a fetch that
  rejected. \<open>done()\<close> is the method of React Native's promise library and does nothing
  to a promise that resolves, as the one of \<open>_updateOfflineStore\<close> always does.
\<close>

definition filename_of :: "env \<Rightarrow> props \<Rightarrow> string" where
  "filename_of ev p = (let (hash, extension) = getEntryProps ev p in hash @ extension)"

definition downloadImage :: "env \<Rightarrow> state \<Rightarrow> props \<Rightarrow> state" where
  "downloadImage ev s p =
     emit [Fetch (case http_method (source p) of None \<Rightarrow> ''GET'' | Some m \<Rightarrow> m)
             (uri (source p)) (headers (source p))
             (getBaseDir ev s @ ''/'' @ filename_of ev p)] s"

definition downloadImage_then :: "env \<Rightarrow> state \<Rightarrow> props \<Rightarrow> int \<Rightarrow> entry \<times> state" where
  "downloadImage_then ev s p now =
     (let (e, s1) = addEntry ev s (fst (getEntryProps ev p)) (filename_of ev p) now
      in (e, updateOfflineStore ev s1))"

definition downloadImage_catch :: "state \<Rightarrow> state" where
  "downloadImage_catch s = debug_log ''Failed to download image'' s"

text \<open>
  The callbacks of one download, once the fetch that \<open>downloadImage\<close> started has an
  answer: \<open>fetched\<close> is the answer of the fetch and \<open>stored\<close> the answer of \<open>setItem\<close>.
  \<open>download_run\<close> is one download from its start to its last callback. Nothing else of the
  store runs in between.
\<close>

definition download_settle ::
  "env \<Rightarrow> state \<Rightarrow> props \<Rightarrow> int \<Rightarrow> outcome \<Rightarrow> outcome \<Rightarrow> state" where
  "download_settle ev s p now fetched stored =
     (case fetched of
        Rejected \<Rightarrow> downloadImage_catch s
      | Resolved \<Rightarrow>
          (let (e, s1) = downloadImage_then ev s p now
           in updateOfflineStore_resume ev s1 (uri (source p)) e stored))"

definition download_run ::
  "env \<Rightarrow> state \<Rightarrow> props \<Rightarrow> int \<Rightarrow> outcome \<Rightarrow> outcome \<Rightarrow> state" where
  "download_run ev s p now fetched stored =
     download_settle ev (downloadImage ev s p) p now fetched stored"

subsection \<open>Requests\<close>

text \<open>
  \<^verbatim>\<open>
  _getImage = (props) => {
    const { reloadImage, source } = props;
    const { uri } = source;
    const entry = this._getEntry(props);

    // Image already exist
    if (entry) {
      // Only exist if base directory matches
      if (entry.basePath === this.getBaseDir()) {
        if (this.store.debugMode) {
          console.log('Image exist offline', uri);
        }
        // Notify subscribed handler
        this._notify(uri, entry);

        // Reload image:
        // Update existing image in offline store as server side image could have updated!
        if (reloadImage) {
          if (this.store.debugMode) {
            console.log('reloadImage is set to true for uri:', uri);
          }
          return this._downloadImage(props);
        }
      } else {
        return this._downloadImage(props);
      }
      return Promise.resolve();
    }

    if (this.store.debugMode) {
      console.log('Image not exist offline', uri);
    }
    return this._downloadImage(props);
  };
  \<close>
  The segment ends when \<open>_downloadImage\<close> has started its fetch; the callbacks of the fetch
  are segments of their own (above). The second component says whether a handler threw,
  which ends \<open>_getImage\<close> at that point. An inherited value passes \<open>if (entry)\<close> and
  fails the comparison of \<open>basePath\<close>.
\<close>

definition getImage :: "env \<Rightarrow> state \<Rightarrow> props \<Rightarrow> state \<times> bool" where
  "getImage ev s p =
     (case getEntry ev s p of
        Own e \<Rightarrow>
          if basePath e = getBaseDir ev s then
            (let (s1, thrown) =
                   notify ev (debug_log ''Image exist offline'' s) (uri (source p)) e in
             if thrown then (s1, True)
             else if reloadImage p then
               (downloadImage ev (debug_log ''reloadImage is set to true for uri:'' s1) p,
                False)
             else (s1, False))
          else (downloadImage ev s p, False)
      | Inherited \<Rightarrow> (downloadImage ev s p, False)
      | Absent \<Rightarrow> (downloadImage ev (debug_log ''Image not exist offline'' s) p, False))"



definition unsubscribe :: "state \<Rightarrow> handler \<Rightarrow> props \<Rightarrow> state" where
  "unsubscribe s h p = s\<lparr>handlers := (handlers s)(uri (source p) := None)\<rparr>"

subsection \<open>The expiry sweep\<close>

text \<open>
  \<^verbatim>\<open>
  _addTime = (date, seconds) => {
    var result = new Date(date);
    result.setSeconds(result.getSeconds() + seconds);
    return result;
  };

  _getExpiredImages = () => {
    const toBeRemovedImages = [];
    const uriList = Object.keys(this.entries);
    uriList.forEach((uri) => {
      const createdPlusDaysDate = this._addTime(this.entries[uri].createdOn, this.store.storeImageTimeout);
      // Image created date + EXPIRED_AFTER_DAYS is < current Date, then remove the image
      if (createdPlusDaysDate < new Date()) {
        toBeRemovedImages.push(uri);
      }
    });

    return toBeRemovedImages;
  };
  \<close>
  The result of \<open>_addTime\<close> is the time value of the date it returns, \<open>None\<close> for an
  invalid date. \<open>createdPlusDaysDate < new Date()\<close> compares time values and is false for
  an invalid date; \<open>now\<close> is the same for every key of one sweep. The keys come from
  \<open>Object.keys\<close>, so \<open>this.entries[uri]\<close> is an own property here.
\<close>

definition addTime :: "env \<Rightarrow> string option \<Rightarrow> int \<Rightarrow> int option" where
  "addTime ev date seconds =
     (case Date_new ev date of
        None \<Rightarrow> None
      | Some t \<Rightarrow> Date_addSeconds ev t seconds)"

definition getExpiredImages :: "env \<Rightarrow> state \<Rightarrow> int \<Rightarrow> string list" where
  "getExpiredImages ev s now =
     filter
       (\<lambda>u. case map_of (entries s) u of
              Some e \<Rightarrow>
                (case addTime ev (createdOn e) (storeImageTimeout (store s)) of
                   Some t \<Rightarrow> t < now
                 | None \<Rightarrow> False)
            | None \<Rightarrow> False)
       (Object_keys (entries s))"

text \<open>
  \<^verbatim>\<open>
  _updateAsyncStorage = (onRestoreCompletionCallback) => {
    AsyncStorage.setItem(`@${this.store.name}:uris`, JSON.stringify(this.entries), () => {
      if (onRestoreCompletionCallback) {
        onRestoreCompletionCallback();
      }
    });
  };
  \<close>
  Two segments: the call of \<open>setItem\<close>, and the callback \<open>setItem\<close> calls when it has
  finished, whether the write succeeded or not. \<open>cb\<close> says whether a completion callback
  was given.
\<close>

definition updateAsyncStorage :: "env \<Rightarrow> state \<Rightarrow> state" where
  "updateAsyncStorage ev s = emit [SetItem (uris_key s) (JSON_stringify ev (entries s))] s"

definition updateAsyncStorage_done :: "state \<Rightarrow> bool \<Rightarrow> state" where
  "updateAsyncStorage_done s cb = (if cb then emit [Completion] s else s)"

text \<open>
  \<^verbatim>\<open>
  _removeExpiredImages = (onRestoreCompletion) => {
    const toBeRemovedImagePromises = [];
    const uriListToRemove = this._getExpiredImages();
    if (this.store.debugMode) {
      console.log('uris to remove from offline store', uriListToRemove);
    }
    uriListToRemove.forEach((uri) => {
      // Remove image from cache
      const unlinkPromise = RNFetchBlob.fs.unlink(`${this.entries[uri].basePath}/${this.entries[uri].localUriPath}`)
        .then(() => {
          // Delete entry from cache so that we should remove from offline Async storage
          delete this.entries[uri];
        })
        .catch((err) => {
          if (this.store.debugMode) {
            console.log('unable to remove image', uri, err);
          }
        });
      toBeRemovedImagePromises.push(unlinkPromise);
    });

    if (toBeRemovedImagePromises.length > 0) {
      if (this.store.debugMode) {
        console.log('Found images to remove:');
      }
      Promise.all(toBeRemovedImagePromises)
        .then((results) => {
          if (this.store.debugMode) {
            console.log('removeExpiredImages completed callback');
          }

          // Update AsyncStorage with removed entries
          this._updateAsyncStorage(onRestoreCompletion);
        })
        .catch((e) => {
          //console.log('Promise.all', 'catch');
          if (this.store.debugMode) {
              console.log('removeExpiredImages error');
          }
          onRestoreCompletion();
        });
    } else { // Nothing to remove so just trigger callback!
      if (this.store.debugMode) {
        console.log('No images to remove:');
      }
      onRestoreCompletion();
    }
  };
  \<close>
  The segments: \<open>removeExpiredImages\<close> is the synchronous part, which starts one \<open>unlink\<close>
  for every expired key, in the order of \<open>uriListToRemove\<close>, and gives that list;
  \<open>unlink_settled\<close> is the callback of one \<open>unlink\<close> (\<open>then\<close> when it resolved, \<open>catch\<close>
  when it rejected); \<open>removeExpiredImages_then\<close> is the callback of \<open>Promise.all\<close>.
  Every promise handed to \<open>Promise.all\<close> ends in a \<open>catch\<close> that returns, so
  \<open>Promise.all\<close> resolves and its own \<open>catch\<close> does not run. \<open>onRestoreCompletion\<close> is
  taken to be given: \<open>restore\<close> is the only caller, and the call in the last branch is
  not guarded.
\<close>

definition unlink_event :: "state \<Rightarrow> string \<Rightarrow> event list" where
  "unlink_event s u =
     (case map_of (entries s) u of Some e \<Rightarrow> [Unlink (entry_path e)] | None \<Rightarrow> [])"

definition removeExpiredImages :: "env \<Rightarrow> state \<Rightarrow> int \<Rightarrow> string list \<times> state" where
  "removeExpiredImages ev s now =
     (let uriListToRemove = getExpiredImages ev s now;
          s1 = debug_log ''uris to remove from offline store'' s;
          s2 = emit (concat (map (unlink_event s) uriListToRemove)) s1
      in if uriListToRemove \<noteq> []
         then (uriListToRemove, debug_log ''Found images to remove:'' s2)
         else (uriListToRemove, emit [Completion] (debug_log ''No images to remove:'' s2)))"

definition unlink_settled :: "state \<Rightarrow> string \<Rightarrow> outcome \<Rightarrow> state" where
  "unlink_settled s u unlinked =
     (case unlinked of
        Resolved \<Rightarrow> s\<lparr>entries := AList.delete u (entries s)\<rparr>
      | Rejected \<Rightarrow> debug_log ''unable to remove image'' s)"

definition removeExpiredImages_then :: "env \<Rightarrow> state \<Rightarrow> state" where
  "removeExpiredImages_then ev s =
     updateAsyncStorage ev (debug_log ''removeExpiredImages completed callback'' s)"

text \<open>
  One sweep from its start to the completion callback, with nothing else of the store
  running in between. The deletions run concurrently: \<open>settle_order\<close> is the order in which
  their promises settle and \<open>unlinked u\<close> is the answer of the \<open>unlink\<close> started for the
  key \<open>u\<close>.
\<close>

definition sweep_run ::
  "env \<Rightarrow> state \<Rightarrow> int \<Rightarrow> string list \<Rightarrow> (string \<Rightarrow> outcome) \<Rightarrow> state" where
  "sweep_run ev s now settle_order unlinked =
     (let (uriListToRemove, s1) = removeExpiredImages ev s now in
      if uriListToRemove = [] then s1
      else
        (let s2 = fold (\<lambda>u t. unlink_settled t u (unlinked u)) settle_order s1;
             s3 = removeExpiredImages_then ev s2
         in updateAsyncStorage_done s3 True))"

subsection \<open>Restoring\<close>

text \<open>
  \<^verbatim>\<open>
  async restore (config, onRestoreCompletion) {
    if (config.name === undefined || config.name.length === 0) {
      throw 'Offline image store name is missing';
    }

    this.store.name = config.name;

    if (config.imageRemoveTimeout) {
      this.store.storeImageTimeout = config.imageRemoveTimeout;
    }

    if (config.debugMode === true) {
      this.store.debugMode = true;
    }

    // Restore existing entries:
    AsyncStorage.getItem(`@${this.store.name}:uris`, (err, uris) => { // On `getItems` completion

      // Assign uris to entry list cache(`this.entries`)
      Object.assign(this.entries, JSON.parse(uris));

      if (this.store.debugMode) {
        console.log('Restored offline images entry dictionary', this.entries);
      }

      // Remove Expired images from offline store and then call user given callback completion method !
      this._removeExpiredImages(onRestoreCompletion);
    });

  };
  \<close>
  Two segments: \<open>restore\<close> up to the call of \<open>getItem\<close>, and the callback of \<open>getItem\<close>,
  which is given what \<open>JSON.parse(uris)\<close> returned (the empty list for \<open>null\<close>, the answer
  when nothing is stored under the key).
\<close>

record config =
  config_name :: "string option"
  imageRemoveTimeout :: "int option"
  config_debugMode :: bool

datatype error = NameMissing

definition restore :: "state \<Rightarrow> config \<Rightarrow> error + state" where
  "restore s c =
     (case config_name c of
        None \<Rightarrow> Inl NameMissing
      | Some n \<Rightarrow>
          if n = [] then Inl NameMissing
          else
            (let st1 = (store s)\<lparr>name := n\<rparr>;
                 st2 =
                   (case imageRemoveTimeout c of
                      None \<Rightarrow> st1
                    | Some t \<Rightarrow> if t \<noteq> 0 then st1\<lparr>storeImageTimeout := t\<rparr> else st1);
                 st3 = (if config_debugMode c then st2\<lparr>debugMode := True\<rparr> else st2);
                 s1 = s\<lparr>store := st3\<rparr>
             in Inr (emit [GetItem (uris_key s1)] s1)))"

definition restore_getItem ::
  "env \<Rightarrow> state \<Rightarrow> (string \<times> entry) list \<Rightarrow> int \<Rightarrow> string list \<times> state" where
  "restore_getItem ev s parsed now =
     (let s1 = s\<lparr>entries := fold (\<lambda>(k, e) al. AList.update k e al) parsed (entries s)\<rparr>;
          s2 = debug_log ''Restored offline images entry dictionary'' s1
      in removeExpiredImages ev s2 now)"

text \<open>
  The instance the module exports:
  \<^verbatim>\<open>const instance = new OfflineImageStore('RN_Default_ImageStore', 259200);\<close>
\<close>

definition instance_state :: state where
  "instance_state =
     \<lparr>entries = [],
      store = \<lparr>name = ''RN_Default_ImageStore'', storeImageTimeout = 259200,
               debugMode = False\<rparr>,
      handlers = Map.empty, trace = []\<rparr>"

subsection \<open>A concrete platform and concrete requests\<close>

text \<open>
  Stand-ins for the library functions, small enough to evaluate: the digest of \<open>u\<close> is
  \<open>sha1:u\<close>, the serialised dictionary lists its keys, and handler \<open>0\<close> is the one that
  throws. The clock is in UTC, where adding seconds adds a thousand milliseconds each, and
  writes and reads the first second of 1970 only.
\<close>

definition epoch_text :: string where
  "epoch_text = ''Thu Jan 01 1970 00:00:00 GMT+0000 (UTC)''"

definition demo_env :: env where
  "demo_env =
     \<lparr>CacheDir = ''/cache'', SHA1 = (\<lambda>u. ''sha1:'' @ u),
      JSON_stringify = (\<lambda>al. concat (map (\<lambda>(k, e). k @ '';'') al)),
      Date_toString = (\<lambda>t. if 0 \<le> t \<and> t < 1000 then epoch_text else ''Invalid Date''),
      Date_new = (\<lambda>d. if d = Some epoch_text then Some 0 else None),
      Date_addSeconds = (\<lambda>t n. Some (t + 1000 * n)),
      handler_throws = (\<lambda>h u p. h = 0)\<rparr>"

definition logo_props :: props where
  "logo_props =
     \<lparr>id_prop = Some ''logo'', ignoreQueryString = False, reloadImage = False,
      source = \<lparr>uri = ''https://cdn.x/img.png?v=2'', http_method = None, headers = None\<rparr>\<rparr>"

definition img_props :: props where
  "img_props =
     \<lparr>id_prop = None, ignoreQueryString = True, reloadImage = False,
      source = \<lparr>uri = ''https://cdn.x/img.png?v=2'', http_method = None, headers = None\<rparr>\<rparr>"

definition logo_entry :: entry where
  "logo_entry =
     \<lparr>createdOn = Some epoch_text, basePath = ''/cache/RN_Default_ImageStore'',
      localUriPath = ''logo.png''\<rparr>"

definition cached_state :: state where
  "cached_state = instance_state\<lparr>entries := [(''logo'', logo_entry)]\<rparr>"

definition other_config :: config where
  "other_config =
     \<lparr>config_name = Some ''B'', imageRemoveTimeout = None, config_debugMode = False\<rparr>"

definition renamed_state :: state where
  "renamed_state =
     \<lparr>entries = [(''logo'', logo_entry)],
      store = \<lparr>name = ''B'', storeImageTimeout = 259200, debugMode = False\<rparr>,
      handlers = Map.empty, trace = [GetItem ''@B:uris'']\<rparr>"

text \<open>A store that holds two entries of the current base directory.\<close>

definition img_entry :: entry where
  "img_entry =
     \<lparr>createdOn = Some epoch_text, basePath = ''/cache/RN_Default_ImageStore'',
      localUriPath = ''sha1:https://cdn.x/img.png.png''\<rparr>"

definition shelf_state :: state where
  "shelf_state =
     instance_state
       \<lparr>entries := [(''logo'', logo_entry), (''sha1:https://cdn.x/img.png'', img_entry)]\<rparr>"

text \<open>
  A store that is named \<open>B\<close>, downloads the logo, is renamed \<open>A\<close> and then \<open>B\<close> again:
  the states after each of the four steps.
\<close>

definition a_config :: config where
  "a_config =
     \<lparr>config_name = Some ''A'', imageRemoveTimeout = None, config_debugMode = False\<rparr>"

definition b_entry :: entry where
  "b_entry =
     \<lparr>createdOn = Some epoch_text, basePath = ''/cache/B'', localUriPath = ''logo.png''\<rparr>"

definition b_state :: state where
  "b_state =
     \<lparr>entries = [],
      store = \<lparr>name = ''B'', storeImageTimeout = 259200, debugMode = False\<rparr>,
      handlers = Map.empty, trace = [GetItem ''@B:uris'']\<rparr>"

definition b_loaded_state :: state where
  "b_loaded_state =
     \<lparr>entries = [(''logo'', b_entry)],
      store = \<lparr>name = ''B'', storeImageTimeout = 259200, debugMode = False\<rparr>,
      handlers = Map.empty,
      trace =
        [GetItem ''@B:uris'',
         Fetch ''GET'' ''https://cdn.x/img.png?v=2'' None ''/cache/B/logo.png'',
         SetItem ''@B:uris'' ''logo;'']\<rparr>"

definition a_state :: state where
  "a_state =
     \<lparr>entries = [(''logo'', b_entry)],
      store = \<lparr>name = ''A'', storeImageTimeout = 259200, debugMode = False\<rparr>,
      handlers = Map.empty,
      trace =
        [GetItem ''@B:uris'',
         Fetch ''GET'' ''https://cdn.x/img.png?v=2'' None ''/cache/B/logo.png'',
         SetItem ''@B:uris'' ''logo;'', GetItem ''@A:uris'']\<rparr>"

definition b_again_state :: state where
  "b_again_state =
     \<lparr>entries = [(''logo'', b_entry)],
      store = \<lparr>name = ''B'', storeImageTimeout = 259200, debugMode = False\<rparr>,
      handlers = Map.empty,
      trace =
        [GetItem ''@B:uris'',
         Fetch ''GET'' ''https://cdn.x/img.png?v=2'' None ''/cache/B/logo.png'',
         SetItem ''@B:uris'' ''logo;'', GetItem ''@A:uris'', GetItem ''@B:uris'']\<rparr>"

text \<open>A request whose \<open>id\<close> is a name every object inherits.\<close>

definition constructor_props :: props where
  "constructor_props =
     \<lparr>id_prop = Some ''constructor'', ignoreQueryString = False, reloadImage = False,
      source = \<lparr>uri = ''https://cdn.x/img.png?v=2'', http_method = None, headers = None\<rparr>\<rparr>"

text \<open>Two handlers subscribed to the URI of the requests above; the first one throws.\<close>

definition subscribed_state :: state where
  "subscribed_state =
     cached_state\<lparr>handlers := [''https://cdn.x/img.png?v=2'' \<mapsto> [0, 1]]\<rparr>"

section \<open>Properties\<close>

subsection \<open>Reading states and traces\<close>

lemma emit_simps:
  "trace (emit evs s) = trace s @ evs"
  "entries (emit evs s) = entries s"
  "store (emit evs s) = store s"
  "handlers (emit evs s) = handlers s"
  by (simp_all add: emit_def)

lemma debug_log_simps:
  "trace (debug_log m s) = trace s @ (if debugMode (store s) then [Log m] else [])"
  "entries (debug_log m s) = entries s"
  "store (debug_log m s) = store s"
  "handlers (debug_log m s) = handlers s"
  by (simp_all add: debug_log_def emit_simps)

lemma since_append: "trace s' = trace s @ evs \<Longrightarrow> since s s' = evs"
  by (simp add: since_def)

lemma effects_simps:
  "effects [] = []"
  "effects (xs @ ys) = effects xs @ effects ys"
  "effects (x # xs) = (if is_log x then effects xs else x # effects xs)"
  "effects (if b then [Log m] else []) = []"
  by (simp_all add: effects_def)

lemma demo_env_simps:
  "CacheDir demo_env = ''/cache''"
  "SHA1 demo_env u = ''sha1:'' @ u"
  "JSON_stringify demo_env al = concat (map (\<lambda>(k, e). k @ '';'') al)"
  "Date_toString demo_env t = (if 0 \<le> t \<and> t < 1000 then epoch_text else ''Invalid Date'')"
  "Date_new demo_env d = (if d = Some epoch_text then Some 0 else None)"
  "Date_addSeconds demo_env t n = Some (t + 1000 * n)"
  "handler_throws demo_env h u p = (h = 0)"
  by (simp_all add: demo_env_def)

lemma instance_state_simps:
  "entries instance_state = []"
  "store instance_state =
     \<lparr>name = ''RN_Default_ImageStore'', storeImageTimeout = 259200, debugMode = False\<rparr>"
  "handlers instance_state = Map.empty"
  "trace instance_state = []"
  by (simp_all add: instance_state_def)

lemma logo_props_simps:
  "uri (source logo_props) = ''https://cdn.x/img.png?v=2''"
  "http_method (source logo_props) = None"
  "headers (source logo_props) = None"
  by (simp_all add: logo_props_def)

lemma cached_state_simps:
  "entries cached_state = [(''logo'', logo_entry)]"
  "store cached_state =
     \<lparr>name = ''RN_Default_ImageStore'', storeImageTimeout = 259200, debugMode = False\<rparr>"
  "handlers cached_state = Map.empty"
  "trace cached_state = []"
  by (simp_all add: cached_state_def instance_state_def)

subsection \<open>Key derivation\<close>

lemma fst_getEntryProps:
  "fst (getEntryProps ev p) =
     (case id_prop p of
        None \<Rightarrow> SHA1 ev (hashed_uri p)
      | Some i \<Rightarrow> if i \<noteq> [] then i else SHA1 ev (hashed_uri p))"
  by (simp add: getEntryProps_def Let_def)

text \<open>
  C1. The cache key of a descriptor is its \<open>id\<close> when that is a non-empty string, and
  otherwise the SHA1 digest of the URI, cut at the first \<open>?\<close> when \<open>ignoreQueryString\<close> is
  set. Hence two descriptors with the same non-empty \<open>id\<close> have the same key, and so have
  two descriptors without an \<open>id\<close> whose URIs, after the cut each asks for, are equal.
\<close>

theorem getEntryProps_key:
  "(id_prop p = Some i \<and> i \<noteq> [] \<longrightarrow> fst (getEntryProps ev p) = i) \<and>
   (id_prop p = None \<or> id_prop p = Some [] \<longrightarrow>
      fst (getEntryProps ev p) =
        SHA1 ev (if ignoreQueryString p
                 then takeWhile (\<lambda>c. c \<noteq> CHR ''?'') (uri (source p))
                 else uri (source p))) \<and>
   (id_prop p = Some i \<and> id_prop q = Some i \<and> i \<noteq> [] \<longrightarrow>
      fst (getEntryProps ev p) = fst (getEntryProps ev q)) \<and>
   ((id_prop p = None \<or> id_prop p = Some []) \<and> (id_prop q = None \<or> id_prop q = Some []) \<and>
    hashed_uri p = hashed_uri q \<longrightarrow>
      fst (getEntryProps ev p) = fst (getEntryProps ev q))"
  by (auto simp: getEntryProps_def hashed_uri_def split_first_def Let_def)

theorem getEntryProps_key_witness:
  "fst (getEntryProps demo_env logo_props) = ''logo'' \<and>
   fst (getEntryProps demo_env img_props) = ''sha1:https://cdn.x/img.png'' \<and>
   fst (getEntryProps demo_env (logo_props\<lparr>reloadImage := True\<rparr>)) =
     fst (getEntryProps demo_env logo_props) \<and>
   fst (getEntryProps demo_env (img_props\<lparr>id_prop := Some []\<rparr>)) =
     fst (getEntryProps demo_env img_props)"
  using getEntryProps_key [where p = logo_props and i = "''logo''" and ev = demo_env
      and q = "logo_props\<lparr>reloadImage := True\<rparr>"]
    getEntryProps_key [where p = img_props and ev = demo_env and i = "[]"
      and q = "img_props\<lparr>id_prop := Some []\<rparr>"]
  by (simp add: demo_env_def logo_props_def img_props_def hashed_uri_def split_first_def
      getEntryProps_def Let_def)

subsection \<open>Reading the cache\<close>

lemma fst_getImageOfflinePath:
  "fst (getImageOfflinePath ev s p) =
     (case map_of (entries s) (fst (getEntryProps ev p)) of
        None \<Rightarrow> None
      | Some e \<Rightarrow>
          if basePath e = CacheDir ev @ ''/'' @ name (store s)
          then Some (basePath e @ ''/'' @ localUriPath e)
          else None)"
  by (simp add: getImageOfflinePath_def getEntry_def get_prop_def getBaseDir_def entry_path_def
      split: option.splits)

lemma restore_simps:
  assumes "restore s c = Inr s'"
  shows "entries s' = entries s" and "handlers s' = handlers s"
    and "config_name c = Some (name (store s'))"
    and "trace s' = trace s @ [GetItem (''@'' @ name (store s') @ '':uris'')]"
  using assms
  by (auto simp: restore_def Let_def emit_simps uris_key_def split: option.splits if_splits)

text \<open>
  The callback of \<open>getItem\<close> that ends a \<open>restore\<close> changes neither \<open>entries\<close> nor \<open>store\<close>
  when nothing is stored under the key and no entry has expired.
\<close>

lemma restore_getItem_nothing:
  assumes "getExpiredImages ev s now = []"
  shows "entries (snd (restore_getItem ev s [] now)) = entries s"
    and "store (snd (restore_getItem ev s [] now)) = store s"
proof -
  have "getExpiredImages ev (debug_log ''Restored offline images entry dictionary'' s) now =
      getExpiredImages ev s now"
    by (simp add: getExpiredImages_def debug_log_simps cong: option.case_cong)
  with assms
  have "getExpiredImages ev (debug_log ''Restored offline images entry dictionary'' s) now = []"
    by simp
  then show "entries (snd (restore_getItem ev s [] now)) = entries s"
    and "store (snd (restore_getItem ev s [] now)) = store s"
    by (simp_all add: restore_getItem_def removeExpiredImages_def Let_def emit_simps
        debug_log_simps)
qed

text \<open>
  C2 (as the code has it). \<open>getImageOfflinePath\<close> returns a path exactly when \<open>entries\<close>
  holds an entry under the derived key whose \<open>basePath\<close> is the current base directory,
  the cache directory followed by the store name; the path is \<open>basePath/localUriPath\<close> of
  that entry. \<open>restore\<close> leaves \<open>entries\<close> as it is and sets the store name. Afterwards a
  descriptor with an entry has a path exactly when the \<open>basePath\<close> of the entry is the new
  base directory: a descriptor that had a path under the name just left has none under a
  different name, its entry still in \<open>entries\<close>, and a descriptor whose entry was recorded
  under the new name has its path again.
\<close>

theorem getImageOfflinePath_valid:
  "fst (getImageOfflinePath ev s p) =
     (case map_of (entries s) (fst (getEntryProps ev p)) of
        None \<Rightarrow> None
      | Some e \<Rightarrow>
          if basePath e = CacheDir ev @ ''/'' @ name (store s)
          then Some (basePath e @ ''/'' @ localUriPath e)
          else None) \<and>
   (restore s c = Inr s' \<longrightarrow>
      entries s' = entries s \<and> config_name c = Some (name (store s')) \<and>
      fst (getImageOfflinePath ev s' p) =
        (case map_of (entries s) (fst (getEntryProps ev p)) of
           None \<Rightarrow> None
         | Some e \<Rightarrow>
             if basePath e = CacheDir ev @ ''/'' @ name (store s')
             then Some (basePath e @ ''/'' @ localUriPath e)
             else None)) \<and>
   (restore s c = Inr s' \<and> name (store s') \<noteq> name (store s) \<and>
    fst (getImageOfflinePath ev s p) = Some path \<longrightarrow>
      fst (getImageOfflinePath ev s' p) = None \<and>
      map_of (entries s') (fst (getEntryProps ev p)) =
        map_of (entries s) (fst (getEntryProps ev p)) \<and>
      map_of (entries s) (fst (getEntryProps ev p)) \<noteq> None)"
proof (intro conjI impI)
  show "fst (getImageOfflinePath ev s p) =
     (case map_of (entries s) (fst (getEntryProps ev p)) of
        None \<Rightarrow> None
      | Some e \<Rightarrow>
          if basePath e = CacheDir ev @ ''/'' @ name (store s)
          then Some (basePath e @ ''/'' @ localUriPath e)
          else None)"
    by (rule fst_getImageOfflinePath)
next
  assume r: "restore s c = Inr s'"
  show "entries s' = entries s"
    by (rule restore_simps(1) [OF r])
  show "config_name c = Some (name (store s'))"
    by (rule restore_simps(3) [OF r])
  show "fst (getImageOfflinePath ev s' p) =
        (case map_of (entries s) (fst (getEntryProps ev p)) of
           None \<Rightarrow> None
         | Some e \<Rightarrow>
             if basePath e = CacheDir ev @ ''/'' @ name (store s')
             then Some (basePath e @ ''/'' @ localUriPath e)
             else None)"
    by (simp add: fst_getImageOfflinePath restore_simps(1) [OF r])
next
  assume a: "restore s c = Inr s' \<and> name (store s') \<noteq> name (store s) \<and>
    fst (getImageOfflinePath ev s p) = Some path"
  then have r: "restore s c = Inr s'" and n: "name (store s') \<noteq> name (store s)"
    and g: "fst (getImageOfflinePath ev s p) = Some path"
    by simp_all
  from g obtain e where e: "map_of (entries s) (fst (getEntryProps ev p)) = Some e"
    and b: "basePath e = CacheDir ev @ ''/'' @ name (store s)"
    by (auto simp: fst_getImageOfflinePath split: option.splits if_splits)
  from e b n show "fst (getImageOfflinePath ev s' p) = None"
    by (simp add: fst_getImageOfflinePath restore_simps(1) [OF r])
  show "map_of (entries s') (fst (getEntryProps ev p)) =
      map_of (entries s) (fst (getEntryProps ev p))"
    by (simp add: restore_simps(1) [OF r])
  from e show "map_of (entries s) (fst (getEntryProps ev p)) \<noteq> None"
    by simp
qed

lemma key_logo: "fst (getEntryProps demo_env logo_props) = ''logo''"
  by (simp add: fst_getEntryProps logo_props_def)

lemma key_img: "fst (getEntryProps demo_env img_props) = ''sha1:https://cdn.x/img.png''"
  by (simp add: fst_getEntryProps img_props_def hashed_uri_def split_first_def demo_env_simps)

lemma restore_cached_state: "restore cached_state other_config = Inr renamed_state"
  by (simp add: renamed_state_def restore_def other_config_def cached_state_def
      instance_state_def uris_key_def emit_def)

theorem getImageOfflinePath_valid_witness:
  "fst (getImageOfflinePath demo_env shelf_state logo_props) =
     Some ''/cache/RN_Default_ImageStore/logo.png'' \<and>
   fst (getImageOfflinePath demo_env shelf_state img_props) =
     Some ''/cache/RN_Default_ImageStore/sha1:https://cdn.x/img.png.png'' \<and>
   fst (getImageOfflinePath demo_env shelf_state constructor_props) = None \<and>
   fst (getImageOfflinePath demo_env cached_state img_props) = None \<and>
   restore cached_state other_config = Inr renamed_state \<and>
   fst (getImageOfflinePath demo_env cached_state logo_props) =
     Some ''/cache/RN_Default_ImageStore/logo.png'' \<and>
   fst (getImageOfflinePath demo_env renamed_state logo_props) = None \<and>
   map_of (entries renamed_state) ''logo'' = Some logo_entry"
proof -
  have n: "name (store renamed_state) \<noteq> name (store cached_state)"
    by (simp add: renamed_state_def cached_state_def instance_state_def)
  have k: "fst (getEntryProps demo_env constructor_props) = ''constructor''"
    by (simp add: fst_getEntryProps constructor_props_def)
  from getImageOfflinePath_valid [of demo_env shelf_state logo_props]
    getImageOfflinePath_valid [of demo_env shelf_state img_props]
    getImageOfflinePath_valid [of demo_env shelf_state constructor_props]
    getImageOfflinePath_valid [of demo_env cached_state img_props]
    getImageOfflinePath_valid [of demo_env cached_state logo_props other_config
      renamed_state "''/cache/RN_Default_ImageStore/logo.png''"]
    restore_cached_state n
  show ?thesis
    by (simp add: key_logo key_img k shelf_state_def cached_state_def instance_state_def
        logo_entry_def img_entry_def demo_env_simps)
qed

text \<open>
  C2 as the specification states it fails in its second part. The store is named \<open>B\<close> and
  downloads the logo; it is renamed \<open>A\<close>, where the logo has no path; it is renamed \<open>B\<close>
  again. The name has changed and the logo was downloaded before the change, yet
  \<open>getImageOfflinePath\<close> returns its path. (The callbacks of \<open>getItem\<close> are left out of
  the run: what is stored under \<open>@A:uris\<close> is nothing and under \<open>@B:uris\<close> the entry
  that \<open>entries\<close> already holds, and no entry has expired at the time \<open>5\<close>.)
\<close>

theorem getImageOfflinePath_valid_counterexample:
  "restore instance_state other_config = Inr b_state \<and>
   download_run demo_env b_state logo_props 5 Resolved Resolved = b_loaded_state \<and>
   restore b_loaded_state a_config = Inr a_state \<and>
   fst (getImageOfflinePath demo_env a_state logo_props) = None \<and>
   restore a_state other_config = Inr b_again_state \<and>
   name (store b_again_state) \<noteq> name (store a_state) \<and>
   fst (getImageOfflinePath demo_env b_again_state logo_props) = Some ''/cache/B/logo.png''"
proof -
  have 1: "restore instance_state other_config = Inr b_state"
    by (simp add: restore_def other_config_def instance_state_def b_state_def uris_key_def
        emit_def)
  have f: "filename_of demo_env logo_props = ''logo.png''"
    by (simp add: filename_of_def getEntryProps_def Let_def logo_props_def split_first_def
        substring_def)
  have 2: "download_run demo_env b_state logo_props 5 Resolved Resolved = b_loaded_state"
    by (simp add: download_run_def download_settle_def downloadImage_def downloadImage_then_def
        addEntry_def updateOfflineStore_def updateOfflineStore_resume_def notify_def
        get_prop_def Object_prototype_def getBaseDir_def uris_key_def emit_def Let_def
        key_logo f b_state_def b_loaded_state_def b_entry_def logo_props_simps demo_env_simps)
  have 3: "restore b_loaded_state a_config = Inr a_state"
    by (simp add: restore_def a_config_def b_loaded_state_def a_state_def uris_key_def
        emit_def)
  have 4: "fst (getImageOfflinePath demo_env a_state logo_props) = None"
    by (simp add: fst_getImageOfflinePath key_logo a_state_def b_entry_def demo_env_simps)
  have 5: "restore a_state other_config = Inr b_again_state"
    by (simp add: restore_def other_config_def a_state_def b_again_state_def uris_key_def
        emit_def)
  have 6: "name (store b_again_state) \<noteq> name (store a_state)"
    by (simp add: a_state_def b_again_state_def)
  have 7: "fst (getImageOfflinePath demo_env b_again_state logo_props) =
      Some ''/cache/B/logo.png''"
    by (simp add: fst_getImageOfflinePath key_logo b_again_state_def b_entry_def
        demo_env_simps)
  from 1 2 3 4 5 6 7 show ?thesis by simp
qed

subsection \<open>The expiry sweep\<close>

lemma unlink_settled_simps:
  "store (unlink_settled s u oc) = store s"
  "handlers (unlink_settled s u oc) = handlers s"
  "map_of (entries (unlink_settled s u oc)) k =
     (if k = u \<and> oc = Resolved then None else map_of (entries s) k)"
  "\<exists>logs. trace (unlink_settled s u oc) = trace s @ logs \<and> effects logs = []"
  by (cases oc; simp add: unlink_settled_def debug_log_simps AList.delete_conv' effects_simps)+

lemma settle_all_store:
  "store (fold (\<lambda>u t. unlink_settled t u (unlinked u)) us s) = store s"
  by (induction us arbitrary: s) (simp_all add: unlink_settled_simps)

lemma settle_all_entries:
  "map_of (entries (fold (\<lambda>u t. unlink_settled t u (unlinked u)) us s)) k =
     (if k \<in> set us \<and> unlinked k = Resolved then None else map_of (entries s) k)"
  by (induction us arbitrary: s) (auto simp: unlink_settled_simps)

lemma settle_all_trace:
  "\<exists>logs. trace (fold (\<lambda>u t. unlink_settled t u (unlinked u)) us s) = trace s @ logs \<and>
     effects logs = []"
proof (induction us arbitrary: s)
  case Nil
  show ?case by (simp add: effects_simps)
next
  case (Cons u us)
  obtain l1 where l1: "trace (unlink_settled s u (unlinked u)) = trace s @ l1" "effects l1 = []"
    using unlink_settled_simps(4) by blast
  obtain l2 where l2:
    "trace (fold (\<lambda>u t. unlink_settled t u (unlinked u)) us (unlink_settled s u (unlinked u))) =
       trace (unlink_settled s u (unlinked u)) @ l2" "effects l2 = []"
    using Cons.IH by blast
  from l1 l2 show ?case by (auto simp: effects_simps)
qed

lemma effects_unlink_events:
  "effects (concat (map (unlink_event s) us)) = concat (map (unlink_event s) us)"
  by (induction us) (auto simp: effects_def unlink_event_def split: option.splits)

lemma removeExpiredImages_simps:
  "fst (removeExpiredImages ev s now) = getExpiredImages ev s now"
  "entries (snd (removeExpiredImages ev s now)) = entries s"
  "store (snd (removeExpiredImages ev s now)) = store s"
  "\<exists>evs. trace (snd (removeExpiredImages ev s now)) = trace s @ evs \<and>
     effects evs =
       concat (map (unlink_event s) (getExpiredImages ev s now)) @
       (if getExpiredImages ev s now = [] then [Completion] else [])"
  by (auto simp: removeExpiredImages_def Let_def emit_simps debug_log_simps effects_simps
      effects_unlink_events)

lemma removeExpiredImages_then_simps:
  "entries (removeExpiredImages_then ev s) = entries s"
  "store (removeExpiredImages_then ev s) = store s"
  "\<exists>evs. trace (removeExpiredImages_then ev s) = trace s @ evs \<and>
     effects evs = [SetItem (uris_key s) (JSON_stringify ev (entries s))]"
  by (auto simp: removeExpiredImages_then_def updateAsyncStorage_def emit_simps debug_log_simps
      effects_simps uris_key_def)

lemma sweep_run_map_of:
  assumes "set settle_order = set (getExpiredImages ev s now)"
  shows "map_of (entries (sweep_run ev s now settle_order unlinked)) k =
     (if k \<in> set (getExpiredImages ev s now) \<and> unlinked k = Resolved then None
      else map_of (entries s) k)"
proof (cases "getExpiredImages ev s now = []")
  case True
  then show ?thesis
    by (simp add: sweep_run_def split_beta removeExpiredImages_simps)
next
  case False
  then show ?thesis
    using assms
    by (simp add: sweep_run_def split_beta Let_def removeExpiredImages_simps
        updateAsyncStorage_done_def emit_simps removeExpiredImages_then_simps settle_all_entries)
qed

lemma settle_all_failures:
  "\<exists>logs. trace (fold (\<lambda>u t. unlink_settled t u (unlinked u)) us s) = trace s @ logs \<and>
     length (filter (\<lambda>x. x = Log ''unable to remove image'') logs) =
       (if debugMode (store s) then length (filter (\<lambda>u. unlinked u = Rejected) us) else 0)"
proof (induction us arbitrary: s)
  case Nil
  show ?case by simp
next
  case (Cons u us)
  let ?s1 = "unlink_settled s u (unlinked u)"
  obtain l2 where l2:
    "trace (fold (\<lambda>u t. unlink_settled t u (unlinked u)) us ?s1) = trace ?s1 @ l2"
    "length (filter (\<lambda>x. x = Log ''unable to remove image'') l2) =
       (if debugMode (store ?s1) then length (filter (\<lambda>u. unlinked u = Rejected) us) else 0)"
    using Cons.IH by blast
  show ?case
  proof (cases "unlinked u")
    case Resolved
    with l2 show ?thesis by (simp add: unlink_settled_def)
  next
    case Rejected
    with l2 show ?thesis by (simp add: unlink_settled_def debug_log_simps)
  qed
qed

lemma no_failure_in_unlinks:
  "filter (\<lambda>x. x = Log ''unable to remove image'') (concat (map (unlink_event s) us)) = []"
  by (induction us) (auto simp: unlink_event_def split: option.splits)

lemma sweep_run_failures:
  "length (filter (\<lambda>x. x = Log ''unable to remove image'')
       (since s (sweep_run ev s now settle_order unlinked))) =
     (if debugMode (store s) \<and> getExpiredImages ev s now \<noteq> []
      then length (filter (\<lambda>u. unlinked u = Rejected) settle_order) else 0)"
proof (cases "getExpiredImages ev s now = []")
  case True
  then show ?thesis
    by (simp add: sweep_run_def split_beta removeExpiredImages_def Let_def since_def emit_simps
        debug_log_simps)
next
  case False
  let ?s1 = "snd (removeExpiredImages ev s now)"
  let ?s2 = "fold (\<lambda>u t. unlink_settled t u (unlinked u)) settle_order ?s1"
  have t1: "trace ?s1 = trace s @
      (if debugMode (store s) then [Log ''uris to remove from offline store''] else []) @
      concat (map (unlink_event s) (getExpiredImages ev s now)) @
      (if debugMode (store s) then [Log ''Found images to remove:''] else [])"
    using False by (simp add: removeExpiredImages_def Let_def emit_simps debug_log_simps)
  obtain l2 where l2: "trace ?s2 = trace ?s1 @ l2"
    "length (filter (\<lambda>x. x = Log ''unable to remove image'') l2) =
       (if debugMode (store ?s1) then length (filter (\<lambda>u. unlinked u = Rejected) settle_order)
        else 0)"
    using settle_all_failures by blast
  have run: "sweep_run ev s now settle_order unlinked =
      updateAsyncStorage_done (removeExpiredImages_then ev ?s2) True"
    using False by (simp add: sweep_run_def split_beta Let_def removeExpiredImages_simps)
  have "trace (sweep_run ev s now settle_order unlinked) = trace s @
      ((if debugMode (store s) then [Log ''uris to remove from offline store''] else []) @
       concat (map (unlink_event s) (getExpiredImages ev s now)) @
       (if debugMode (store s) then [Log ''Found images to remove:''] else []) @ l2 @
       (if debugMode (store s) then [Log ''removeExpiredImages completed callback''] else []) @
       [SetItem (uris_key ?s2) (JSON_stringify ev (entries ?s2)), Completion])"
    by (simp add: run updateAsyncStorage_done_def removeExpiredImages_then_def
        updateAsyncStorage_def emit_simps debug_log_simps t1 l2 settle_all_store
        removeExpiredImages_simps uris_key_def)
  then have "since s (sweep_run ev s now settle_order unlinked) =
      (if debugMode (store s) then [Log ''uris to remove from offline store''] else []) @
       concat (map (unlink_event s) (getExpiredImages ev s now)) @
       (if debugMode (store s) then [Log ''Found images to remove:''] else []) @ l2 @
       (if debugMode (store s) then [Log ''removeExpiredImages completed callback''] else []) @
       [SetItem (uris_key ?s2) (JSON_stringify ev (entries ?s2)), Completion]"
    by (rule since_append)
  with l2 False show ?thesis
    by (simp add: no_failure_in_unlinks removeExpiredImages_simps)
qed

text \<open>
  C3 (as the code has it). In a sweep, whatever the order in which the deletions settle,
  the entry of an expired key is removed from \<open>entries\<close> exactly when the \<open>unlink\<close> of its
  file resolved. When the \<open>unlink\<close> rejected, the entry stays as it was, and the failure is
  written to the console when \<open>debugMode\<close> is on (once for every rejected deletion).
  Entries of keys that have not expired are not touched.
\<close>

theorem sweep_run_entries:
  assumes "set settle_order = set (getExpiredImages ev s now)"
  shows "map_of (entries (sweep_run ev s now settle_order unlinked)) k =
           (if k \<in> set (getExpiredImages ev s now) \<and> unlinked k = Resolved then None
            else map_of (entries s) k) \<and>
         length (filter (\<lambda>x. x = Log ''unable to remove image'')
           (since s (sweep_run ev s now settle_order unlinked))) =
           (if debugMode (store s)
            then length (filter (\<lambda>u. unlinked u = Rejected) settle_order) else 0)"
proof -
  from assms have "getExpiredImages ev s now = [] \<Longrightarrow> settle_order = []"
    by simp
  then have "(if debugMode (store s) \<and> getExpiredImages ev s now \<noteq> []
       then length (filter (\<lambda>u. unlinked u = Rejected) settle_order) else 0) =
      (if debugMode (store s)
       then length (filter (\<lambda>u. unlinked u = Rejected) settle_order) else 0)"
    by auto
  with sweep_run_map_of [OF assms] sweep_run_failures show ?thesis
    by simp
qed

lemma Object_keys_logo: "Object_keys [(''logo'', e)] = [''logo'']"
  by (simp add: Object_keys_def is_array_index_def digit_value_def)

lemma expired_cached_state:
  "getExpiredImages demo_env cached_state 300000000 = [''logo'']"
  by (simp add: getExpiredImages_def cached_state_simps logo_entry_def addTime_def
      demo_env_simps Object_keys_logo)

theorem sweep_run_entries_witness:
  "set [''logo''] = set (getExpiredImages demo_env cached_state 300000000) \<and>
   map_of (entries (sweep_run demo_env cached_state 300000000 [''logo''] (\<lambda>u. Resolved)))
     ''logo'' = None"
  using sweep_run_entries [of "[''logo'']" demo_env cached_state 300000000 "\<lambda>u. Resolved"
      "''logo''"]
  by (simp add: expired_cached_state)

text \<open>
  C3 as the specification states it fails: the key \<open>logo\<close> has expired, the \<open>unlink\<close> of
  its file rejects, and after the sweep the entry is still in \<open>entries\<close>.
\<close>

theorem sweep_run_entries_counterexample:
  "''logo'' \<in> set (getExpiredImages demo_env cached_state 300000000) \<and>
   map_of (entries (sweep_run demo_env cached_state 300000000 [''logo''] (\<lambda>u. Rejected)))
     ''logo'' = Some logo_entry"
  by (simp add: expired_cached_state sweep_run_def split_beta Let_def removeExpiredImages_simps
      removeExpiredImages_then_simps updateAsyncStorage_done_def emit_simps
      unlink_settled_simps cached_state_simps)

text \<open>
  C6 (as the code has it). The calls a sweep makes, console output aside, are: one
  \<open>unlink\<close> for every expired key, in the order of the keys; then, when at least one key
  had expired, one \<open>setItem\<close> of the dictionary as it is after every deletion has settled,
  followed by the completion callback; when no key had expired, the completion callback
  alone, with no \<open>setItem\<close>.
\<close>

theorem sweep_run_persists:
  "effects (since s (sweep_run ev s now settle_order unlinked)) =
     concat (map (unlink_event s) (getExpiredImages ev s now)) @
     (if getExpiredImages ev s now = [] then [Completion]
      else [SetItem (uris_key s)
              (JSON_stringify ev (entries (sweep_run ev s now settle_order unlinked))),
            Completion])"
proof -
  let ?r = "removeExpiredImages ev s now"
  obtain e1 where e1: "trace (snd ?r) = trace s @ e1"
    "effects e1 = concat (map (unlink_event s) (getExpiredImages ev s now)) @
       (if getExpiredImages ev s now = [] then [Completion] else [])"
    using removeExpiredImages_simps(4) by blast
  show ?thesis
  proof (cases "getExpiredImages ev s now = []")
    case True
    with e1 show ?thesis
      by (simp add: sweep_run_def split_beta removeExpiredImages_simps since_def)
  next
    case False
    let ?s2 = "fold (\<lambda>u t. unlink_settled t u (unlinked u)) settle_order (snd ?r)"
    obtain e2 where e2: "trace ?s2 = trace (snd ?r) @ e2" "effects e2 = []"
      using settle_all_trace by blast
    obtain e3 where e3: "trace (removeExpiredImages_then ev ?s2) = trace ?s2 @ e3"
      "effects e3 = [SetItem (uris_key ?s2) (JSON_stringify ev (entries ?s2))]"
      using removeExpiredImages_then_simps(3) by blast
    have k: "uris_key ?s2 = uris_key s"
      by (simp add: uris_key_def settle_all_store removeExpiredImages_simps)
    have run: "sweep_run ev s now settle_order unlinked =
        updateAsyncStorage_done (removeExpiredImages_then ev ?s2) True"
      using False by (simp add: sweep_run_def split_beta Let_def removeExpiredImages_simps)
    have ent: "entries (sweep_run ev s now settle_order unlinked) = entries ?s2"
      by (simp add: run updateAsyncStorage_done_def emit_simps removeExpiredImages_then_simps)
    have "trace (sweep_run ev s now settle_order unlinked) =
        trace s @ (e1 @ e2 @ e3 @ [Completion])"
      by (simp add: run updateAsyncStorage_done_def emit_simps e1 e2 e3)
    then have "since s (sweep_run ev s now settle_order unlinked) = e1 @ e2 @ e3 @ [Completion]"
      by (rule since_append)
    with e1 e2 e3 k ent False show ?thesis
      by (simp add: effects_simps)
  qed
qed

theorem sweep_run_persists_witness:
  "effects (since cached_state
     (sweep_run demo_env cached_state 300000000 [''logo''] (\<lambda>u. Resolved))) =
   [Unlink ''/cache/RN_Default_ImageStore/logo.png'',
    SetItem ''@RN_Default_ImageStore:uris'' [], Completion]"
proof -
  have "entries (sweep_run demo_env cached_state 300000000 [''logo''] (\<lambda>u. Resolved)) = []"
    by (simp add: sweep_run_def split_beta Let_def removeExpiredImages_simps
        expired_cached_state updateAsyncStorage_done_def emit_simps
        removeExpiredImages_then_simps unlink_settled_def cached_state_simps)
  with sweep_run_persists [of cached_state demo_env 300000000 "[''logo'']" "\<lambda>u. Resolved"]
  show ?thesis
    by (simp add: expired_cached_state unlink_event_def entry_path_def uris_key_def
        cached_state_simps logo_entry_def demo_env_simps)
qed

text \<open>
  C6 as the specification states it fails: nothing has expired in the state of the exported
  instance, and the sweep calls the completion callback without any call of
  \<open>AsyncStorage\<close>.
\<close>

theorem sweep_run_persists_counterexample:
  "filter is_storage
     (since instance_state (sweep_run demo_env instance_state 0 [] (\<lambda>u. Resolved))) = [] \<and>
   Completion \<in> set (since instance_state
     (sweep_run demo_env instance_state 0 [] (\<lambda>u. Resolved)))"
  by (simp add: sweep_run_def split_beta removeExpiredImages_def getExpiredImages_def Let_def
      instance_state_def since_def emit_def debug_log_def)

subsection \<open>Notification\<close>



lemma notify_simps:
  "entries (fst (notify ev s u e)) = entries s"
  "store (fst (notify ev s u e)) = store s"
  "handlers (fst (notify ev s u e)) = handlers s"
  "trace (fst (notify ev s u e)) =
     trace s @
     (case handlers s u of
        None \<Rightarrow> []
      | Some hs \<Rightarrow> fst (call_handlers ev (debugMode (store s)) u (entry_path e) hs))"
  "snd (notify ev s u e) =
     (case handlers s u of
        None \<Rightarrow> False
      | Some hs \<Rightarrow> snd (call_handlers ev (debugMode (store s)) u (entry_path e) hs))"
  by (simp_all add: notify_def split_beta emit_simps split: option.splits)


lemma subscribed_state_simps:
  "entries subscribed_state = [(''logo'', logo_entry)]"
  "store subscribed_state =
     \<lparr>name = ''RN_Default_ImageStore'', storeImageTimeout = 259200, debugMode = False\<rparr>"
  "handlers subscribed_state = [''https://cdn.x/img.png?v=2'' \<mapsto> [0, 1]]"
  "trace subscribed_state = []"
  by (simp_all add: subscribed_state_def cached_state_simps)



subsection \<open>Downloading\<close>

lemma addEntry_simps:
  "fst (addEntry ev s k f now) =
     (case get_prop (entries s) k of
        Own old \<Rightarrow> old\<lparr>basePath := getBaseDir ev s, localUriPath := f\<rparr>
      | Inherited \<Rightarrow> \<lparr>createdOn = None, basePath = getBaseDir ev s, localUriPath = f\<rparr>
      | Absent \<Rightarrow>
          \<lparr>createdOn = Some (Date_toString ev now), basePath = getBaseDir ev s,
           localUriPath = f\<rparr>)"
  "entries (snd (addEntry ev s k f now)) =
     AList.update k (fst (addEntry ev s k f now)) (entries s)"
  "store (snd (addEntry ev s k f now)) = store s"
  "handlers (snd (addEntry ev s k f now)) = handlers s"
  "trace (snd (addEntry ev s k f now)) = trace s"
  by (simp_all add: addEntry_def Let_def)

lemma downloadImage_simps:
  "entries (downloadImage ev s p) = entries s"
  "store (downloadImage ev s p) = store s"
  "handlers (downloadImage ev s p) = handlers s"
  "trace (downloadImage ev s p) =
     trace s @
     [Fetch (case http_method (source p) of None \<Rightarrow> ''GET'' | Some m \<Rightarrow> m)
        (uri (source p)) (headers (source p)) (getBaseDir ev s @ ''/'' @ filename_of ev p)]"
  by (simp_all add: downloadImage_def emit_simps)

lemma downloadImage_then_simps:
  "fst (downloadImage_then ev s p now) =
     fst (addEntry ev s (fst (getEntryProps ev p)) (filename_of ev p) now)"
  "entries (snd (downloadImage_then ev s p now)) =
     AList.update (fst (getEntryProps ev p))
       (fst (addEntry ev s (fst (getEntryProps ev p)) (filename_of ev p) now)) (entries s)"
  "store (snd (downloadImage_then ev s p now)) = store s"
  "handlers (snd (downloadImage_then ev s p now)) = handlers s"
  "trace (snd (downloadImage_then ev s p now)) =
     trace s @
     [SetItem (uris_key s) (JSON_stringify ev (entries (snd (downloadImage_then ev s p now))))]"
  by (simp_all add: downloadImage_then_def split_beta updateOfflineStore_def emit_simps
      addEntry_simps uris_key_def)

lemma updateOfflineStore_resume_simps:
  "entries (updateOfflineStore_resume ev s u e stored) = entries s"
  "store (updateOfflineStore_resume ev s u e stored) = store s"
  "handlers (updateOfflineStore_resume ev s u e stored) = handlers s"
  "filter is_call (since s (updateOfflineStore_resume ev s u e Rejected)) = []"
  by (cases stored;
      simp add: updateOfflineStore_resume_def split_beta debug_log_simps notify_simps since_def)+

lemma getImage_simps:
  "entries (fst (getImage ev s p)) = entries s"
  "store (fst (getImage ev s p)) = store s"
  "handlers (fst (getImage ev s p)) = handlers s"
  by (simp_all add: getImage_def split_beta downloadImage_simps debug_log_simps notify_simps
      split: lookup.splits)

lemma getBaseDir_after:
  "getBaseDir ev (downloadImage ev s p) = getBaseDir ev s"
  "getBaseDir ev (fst (getImage ev s p)) = getBaseDir ev s"
  by (simp_all add: getBaseDir_def downloadImage_simps getImage_simps)

text \<open>
  C4. A download whose fetch rejects (the request or the write of the file failed) leaves
  \<open>entries\<close> exactly as it was, and calls no handler: apart from console output, the only
  call the download made is the fetch itself.
\<close>

theorem download_failure:
  "entries (download_run ev s p now Rejected stored) = entries s \<and>
   handlers (download_run ev s p now Rejected stored) = handlers s \<and>
   store (download_run ev s p now Rejected stored) = store s \<and>
   filter is_call (since s (download_run ev s p now Rejected stored)) = [] \<and>
   effects (since s (download_run ev s p now Rejected stored)) =
     [Fetch (case http_method (source p) of None \<Rightarrow> ''GET'' | Some m \<Rightarrow> m)
        (uri (source p)) (headers (source p)) (getBaseDir ev s @ ''/'' @ filename_of ev p)]"
  by (simp add: download_run_def download_settle_def downloadImage_catch_def debug_log_simps
      downloadImage_simps since_def effects_simps)

theorem download_failure_witness:
  "entries (download_run demo_env subscribed_state logo_props 5 Rejected Resolved) =
     [(''logo'', logo_entry)] \<and>
   effects (since subscribed_state
     (download_run demo_env subscribed_state logo_props 5 Rejected Resolved)) =
     [Fetch ''GET'' ''https://cdn.x/img.png?v=2'' None
        ''/cache/RN_Default_ImageStore/logo.png'']"
  using download_failure [of demo_env subscribed_state logo_props 5 Resolved]
  by (simp add: subscribed_state_simps getBaseDir_def demo_env_simps filename_of_def
      getEntryProps_def Let_def logo_props_def split_first_def substring_def)

lemma download_settle_entries:
  "entries (download_settle ev s p now Resolved stored) =
     AList.update (fst (getEntryProps ev p))
       (fst (addEntry ev s (fst (getEntryProps ev p)) (filename_of ev p) now)) (entries s)"
  by (simp add: download_settle_def split_beta updateOfflineStore_resume_simps
      downloadImage_then_simps)

lemma download_run_entries:
  "entries (download_run ev s p now Resolved stored) =
     AList.update (fst (getEntryProps ev p))
       (fst (addEntry ev s (fst (getEntryProps ev p)) (filename_of ev p) now)) (entries s)"
  by (simp add: download_run_def download_settle_entries addEntry_simps downloadImage_simps
      getBaseDir_after cong: lookup.case_cong)

text \<open>
  What a download that succeeds records, by what \<open>this.entries[hash]\<close> reads before it:
  nothing (the key is neither an own property nor an inherited name), then the entry gets
  the time of the download as \<open>createdOn\<close>; an entry, then \<open>createdOn\<close> is kept and
  \<open>basePath\<close> and \<open>localUriPath\<close> are replaced; an inherited value, then the entry gets no
  \<open>createdOn\<close>. Entries under other keys stay, and a download started by a request
  (\<open>_getImage\<close>, with \<open>reloadImage\<close> or without) ends in the same \<open>entries\<close>.
\<close>

lemma download_createdOn_cases:
  "(map_of (entries s) (fst (getEntryProps ev p)) = None \<and>
    fst (getEntryProps ev p) \<notin> set Object_prototype \<longrightarrow>
      map_of (entries (download_run ev s p now Resolved stored)) (fst (getEntryProps ev p)) =
        Some \<lparr>createdOn = Some (Date_toString ev now), basePath = getBaseDir ev s,
              localUriPath = filename_of ev p\<rparr>) \<and>
   (map_of (entries s) (fst (getEntryProps ev p)) = Some old \<longrightarrow>
      map_of (entries (download_run ev s p now Resolved stored)) (fst (getEntryProps ev p)) =
        Some (old\<lparr>basePath := getBaseDir ev s, localUriPath := filename_of ev p\<rparr>) \<and>
      map_option createdOn
        (map_of (entries (download_run ev s p now Resolved stored)) (fst (getEntryProps ev p))) =
        Some (createdOn old)) \<and>
   (map_of (entries s) (fst (getEntryProps ev p)) = None \<and>
    fst (getEntryProps ev p) \<in> set Object_prototype \<longrightarrow>
      map_of (entries (download_run ev s p now Resolved stored)) (fst (getEntryProps ev p)) =
        Some \<lparr>createdOn = None, basePath = getBaseDir ev s,
              localUriPath = filename_of ev p\<rparr>) \<and>
   (k \<noteq> fst (getEntryProps ev p) \<longrightarrow>
      map_of (entries (download_run ev s p now Resolved stored)) k = map_of (entries s) k) \<and>
   entries (download_settle ev (fst (getImage ev s p)) p now Resolved stored) =
     entries (download_run ev s p now Resolved stored)"
proof -
  have "entries (download_settle ev (fst (getImage ev s p)) p now Resolved stored) =
      entries (download_run ev s p now Resolved stored)"
    by (simp add: download_run_entries download_settle_entries addEntry_simps getImage_simps
        getBaseDir_after cong: lookup.case_cong)
  moreover have "map_of (entries (download_run ev s p now Resolved stored)) =
      (map_of (entries s))(fst (getEntryProps ev p) \<mapsto>
        fst (addEntry ev s (fst (getEntryProps ev p)) (filename_of ev p) now))"
    by (simp add: download_run_entries AList.update_conv')
  ultimately show ?thesis
    by (simp add: addEntry_simps get_prop_def)
qed

text \<open>
  C5. The property: \<open>createdOn\<close> of a key is set once, by the first download that succeeds
  for the key, and every later download of the key keeps it and replaces \<open>basePath\<close> and
  \<open>localUriPath\<close> only. The code fails it. \<open>_addEntry\<close> means to save the date when an
  image is downloaded for the first time, and tells the first time by \<open>this.entries[hash]\<close>
  being falsy. For a key that names a member of \<open>Object.prototype\<close> the read finds the
  inherited function: under the \<open>id\<close> \<open>constructor\<close> the store has no entry, the first
  download succeeds, and the entry it records has no \<open>createdOn\<close>; a second download
  keeps it that way.
\<close>

theorem download_createdOn_inherited:
  "fst (getEntryProps demo_env constructor_props) = ''constructor'' \<and>
   map_of (entries instance_state) ''constructor'' = None \<and>
   map_of (entries (download_run demo_env instance_state constructor_props 5 Resolved Resolved))
     ''constructor'' =
     Some \<lparr>createdOn = None, basePath = ''/cache/RN_Default_ImageStore'',
           localUriPath = ''constructor.png''\<rparr> \<and>
   map_of (entries (download_run demo_env
       (download_run demo_env instance_state constructor_props 5 Resolved Resolved)
       constructor_props 7 Resolved Resolved)) ''constructor'' =
     Some \<lparr>createdOn = None, basePath = ''/cache/RN_Default_ImageStore'',
           localUriPath = ''constructor.png''\<rparr>"
proof -
  have k: "fst (getEntryProps demo_env constructor_props) = ''constructor''"
    by (simp add: fst_getEntryProps constructor_props_def)
  have f: "filename_of demo_env constructor_props = ''constructor.png''"
    by (simp add: filename_of_def getEntryProps_def Let_def constructor_props_def
        split_first_def substring_def)
  have 0: "map_of (entries instance_state) ''constructor'' = None"
    by (simp add: instance_state_def)
  have 1: "entries (download_run demo_env instance_state constructor_props 5 Resolved Resolved) =
      [(''constructor'',
        \<lparr>createdOn = None, basePath = ''/cache/RN_Default_ImageStore'',
         localUriPath = ''constructor.png''\<rparr>)]"
    by (simp add: download_run_entries k f addEntry_simps get_prop_def Object_prototype_def
        getBaseDir_def instance_state_def demo_env_simps)
  have st: "store (download_run demo_env instance_state constructor_props 5 Resolved Resolved) =
      store instance_state"
    by (simp add: download_run_def download_settle_def split_beta
        updateOfflineStore_resume_simps downloadImage_then_simps downloadImage_simps)
  have 2: "entries (download_run demo_env
       (download_run demo_env instance_state constructor_props 5 Resolved Resolved)
       constructor_props 7 Resolved Resolved) =
      [(''constructor'',
        \<lparr>createdOn = None, basePath = ''/cache/RN_Default_ImageStore'',
         localUriPath = ''constructor.png''\<rparr>)]"
    by (simp add: download_run_entries [of demo_env
          "download_run demo_env instance_state constructor_props 5 Resolved Resolved"]
        1 st k f addEntry_simps get_prop_def getBaseDir_def instance_state_simps
        demo_env_simps)
  from k 0 1 2 show ?thesis by simp
qed



subsection \<open>Requests\<close>








subsection \<open>The storage key\<close>

text \<open>
  C9 (as the code has it). Every call of \<open>AsyncStorage\<close> uses the key made of \<open>@\<close>, the
  current store name and \<open>:uris\<close>: \<open>restore\<close> reads under it, with the name the
  configuration has just set, and \<open>_updateAsyncStorage\<close> and \<open>_updateOfflineStore\<close> write
  under it the whole of \<open>entries\<close>, serialised by \<open>JSON.stringify\<close>, as one value.
\<close>

theorem storage_key_used:
  "(restore s c = Inr s' \<longrightarrow>
      since s s' = [GetItem (''@'' @ name (store s') @ '':uris'')] \<and>
      config_name c = Some (name (store s'))) \<and>
   since s (updateAsyncStorage ev s) =
     [SetItem (''@'' @ name (store s) @ '':uris'') (JSON_stringify ev (entries s))] \<and>
   since s (updateOfflineStore ev s) =
     [SetItem (''@'' @ name (store s) @ '':uris'') (JSON_stringify ev (entries s))]"
proof (intro conjI impI)
  assume "restore s c = Inr s'"
  then show "since s s' = [GetItem (''@'' @ name (store s') @ '':uris'')]"
    by (auto simp: restore_def Let_def since_def emit_simps uris_key_def
        split: option.splits if_splits)
next
  assume "restore s c = Inr s'"
  then show "config_name c = Some (name (store s'))"
    by (auto simp: restore_def Let_def emit_simps split: option.splits if_splits)
next
  show "since s (updateAsyncStorage ev s) =
      [SetItem (''@'' @ name (store s) @ '':uris'') (JSON_stringify ev (entries s))]"
    by (simp add: updateAsyncStorage_def since_def emit_simps uris_key_def)
next
  show "since s (updateOfflineStore ev s) =
      [SetItem (''@'' @ name (store s) @ '':uris'') (JSON_stringify ev (entries s))]"
    by (simp add: updateOfflineStore_def since_def emit_simps uris_key_def)
qed

theorem storage_key_used_witness:
  "restore cached_state other_config = Inr renamed_state \<and>
   since cached_state renamed_state = [GetItem ''@B:uris''] \<and>
   since cached_state (updateAsyncStorage demo_env cached_state) =
     [SetItem ''@RN_Default_ImageStore:uris'' ''logo;'']"
proof -
  have r: "restore cached_state other_config = Inr renamed_state"
    by (simp add: renamed_state_def restore_def other_config_def cached_state_def
        instance_state_def uris_key_def emit_def)
  from storage_key_used [of cached_state other_config renamed_state demo_env] r
  show ?thesis
    by (simp add: renamed_state_def cached_state_simps demo_env_simps)
qed

text \<open>
  C9 as the specification states it fails: the key the exported instance writes under is
  not its store name followed by \<open>:uris\<close> (it starts with \<open>@\<close>).
\<close>

theorem storage_key_used_counterexample:
  "concat (map storage_key
     (since instance_state (updateAsyncStorage demo_env instance_state))) \<noteq>
   [name (store instance_state) @ '':uris'']"
  by (simp add: updateAsyncStorage_def since_def emit_simps uris_key_def instance_state_def)

end
